theory Spec2Isabelle
  imports Main "HOL-Library.Char_ord" "HOL-Library.List_Lexorder" "HOL-Library.Sublist"
    "HOL-Library.Multiset"
begin

section \<open>The deletion engine of dandi/delete.py\<close>

text \<open>
  A shallow embedding of \<^verbatim>\<open>src/dandi/delete.py\<close>. The class \<^verbatim>\<open>Deleter\<close> is a record that
  every method takes and returns; an exception is the \<open>Inl\<close> side of a sum, and it is
  returned together with the Deleter as the method left it, because Python keeps the
  mutations made before the \<^verbatim>\<open>raise\<close>. The REST client, the URL parser, the local
  filesystem, the prompt and Python's \<^verbatim>\<open>repr\<close> are not part of the module: they are the
  fields of the record \<open>env\<close>, a parameter of every definition.
\<close>

subsection \<open>Exceptions\<close>

datatype error =
    NotFoundError string
  | ValueError string
  | NotImplementedError string
  | RuntimeError string
  | AttributeError string
  | Exception string string  \<comment> \<open>any other subclass of \<^verbatim>\<open>Exception\<close>: its name and its text\<close>
  | BaseException string string
      \<comment> \<open>a class outside \<^verbatim>\<open>Exception\<close>, such as \<^verbatim>\<open>KeyboardInterrupt\<close>: its name and its text\<close>

text \<open>\<^verbatim>\<open>except NotFoundError\<close> catches this class only.\<close>

fun is_NotFoundError :: "error \<Rightarrow> bool" where
  "is_NotFoundError (NotFoundError m) = True"
| "is_NotFoundError e = False"

text \<open>\<^verbatim>\<open>except Exception\<close> catches every class but those outside \<^verbatim>\<open>Exception\<close>.\<close>

fun is_Exception :: "error \<Rightarrow> bool" where
  "is_Exception (BaseException n m) = False"
| "is_Exception e = True"

text \<open>\<^verbatim>\<open>type(e).__name__\<close> and \<^verbatim>\<open>str(e)\<close>.\<close>

fun type_name :: "error \<Rightarrow> string" where
  "type_name (NotFoundError m) = ''NotFoundError''"
| "type_name (ValueError m) = ''ValueError''"
| "type_name (NotImplementedError m) = ''NotImplementedError''"
| "type_name (RuntimeError m) = ''RuntimeError''"
| "type_name (AttributeError m) = ''AttributeError''"
| "type_name (Exception n m) = n"
| "type_name (BaseException n m) = n"

fun str_error :: "error \<Rightarrow> string" where
  "str_error (NotFoundError m) = m"
| "str_error (ValueError m) = m"
| "str_error (NotImplementedError m) = m"
| "str_error (RuntimeError m) = m"
| "str_error (AttributeError m) = m"
| "str_error (Exception n m) = m"
| "str_error (BaseException n m) = m"

subsection \<open>Data\<close>

record RemoteDandiset =
  "identifier" :: string

record RemoteAsset =
  "identifier" :: string
  path :: string

record DandiAPIClient =
  api_url :: string

text \<open>
  The result of \<^verbatim>\<open>parse_dandi_url\<close>: \<open>isinstance_DandisetURL\<close> is the test
  \<^verbatim>\<open>isinstance(parsed_url, DandisetURL)\<close>; every other subclass is an asset-scope URL.
\<close>

record ParsedDandiURL =
  isinstance_DandisetURL :: bool
  api_url :: string
  dandiset_id :: string
  version_id :: "string option"

record DandiInstance =
  api :: string

record Deleter =
  client :: "DandiAPIClient option"
  dandiset :: "RemoteDandiset option"
  deleting_dandiset :: bool
  skip_missing :: bool
  remote_assets :: "RemoteAsset list"

text \<open>
  The collaborators and language primitives the module calls, and the two constants it
  imports from \<^verbatim>\<open>consts\<close> (the name of the draft version and of the metadata file).
\<close>

record env =
  dandi_authenticate :: "DandiAPIClient \<Rightarrow> error option"
  get_dandiset :: "DandiAPIClient \<Rightarrow> string \<Rightarrow> string \<Rightarrow> error + RemoteDandiset"
  get_asset_by_path :: "RemoteDandiset \<Rightarrow> string \<Rightarrow> error + RemoteAsset"
  get_assets_with_path_prefix :: "RemoteDandiset \<Rightarrow> string \<Rightarrow> RemoteAsset list"
  parse_dandi_url :: "string \<Rightarrow> error + ParsedDandiURL"
  get_assets :: "ParsedDandiURL \<Rightarrow> DandiAPIClient option \<Rightarrow> RemoteAsset list"
  get_instance :: "string \<Rightarrow> error + DandiInstance"
  is_url :: "string \<Rightarrow> bool"
  Dandiset_find :: "string \<Rightarrow> (string \<times> string) option"
  is_dir :: "string \<Rightarrow> bool"
  click_confirm :: "string \<Rightarrow> bool"
  asset_delete :: "RemoteAsset \<Rightarrow> error option"
  dandiset_delete :: "RemoteDandiset \<Rightarrow> error option"
  repr :: "string \<Rightarrow> string"
  DRAFT :: string
  dandiset_metadata_file :: string

subsection \<open>Strings\<close>

text \<open>\<^verbatim>\<open>s.rstrip(chars)\<close>: drops every trailing character that is in \<open>chars\<close>.\<close>

definition rstrip :: "string \<Rightarrow> string \<Rightarrow> string" where
  "rstrip chars s = rev (dropWhile (\<lambda>c. c \<in> set chars) (rev s))"

text \<open>\<^verbatim>\<open>s.endswith("/")\<close>.\<close>

definition endswith_slash :: "string \<Rightarrow> bool" where
  "endswith_slash s = (s \<noteq> [] \<and> last s = CHR ''/'')"

text \<open>\<^verbatim>\<open>str(n)\<close> for a length: the decimal digits.\<close>

definition digit :: "nat \<Rightarrow> char" where
  "digit n = ''0123456789'' ! n"

function str_nat :: "nat \<Rightarrow> string" where
  "str_nat n = (if n < 10 then [digit n] else str_nat (n div 10) @ [digit (n mod 10)])"
  by pat_completeness auto
termination
  by (relation "measure (\<lambda>n. n)") auto

text \<open>A text between apostrophes, and the message of an attribute read on \<^verbatim>\<open>None\<close>.\<close>

definition quoted :: "string \<Rightarrow> string" where
  "quoted s = CHR 0x27 # s @ [CHR 0x27]"

definition NoneType_has_no :: "string \<Rightarrow> error" where
  "NoneType_has_no attr =
     AttributeError (quoted ''NoneType'' @ '' object has no attribute '' @ quoted attr)"

definition is_same_url :: "string \<Rightarrow> string \<Rightarrow> bool" where
  "is_same_url url1 url2 = (rstrip ''/'' url1 = rstrip ''/'' url2)"

subsection \<open>Registration\<close>

text \<open>\<^verbatim>\<open>Deleter(skip_missing=skip_missing)\<close>: the dataclass defaults.\<close>

definition Deleter_init :: "bool \<Rightarrow> Deleter" where
  "Deleter_init sm =
     \<lparr>client = None, dandiset = None, deleting_dandiset = False, skip_missing = sm,
      remote_assets = []\<rparr>"

text \<open>\<^verbatim>\<open>Deleter.__bool__\<close>.\<close>

definition Deleter_bool :: "Deleter \<Rightarrow> bool" where
  "Deleter_bool d = (deleting_dandiset d \<or> remote_assets d \<noteq> [])"

definition set_dandiset :: "env \<Rightarrow> Deleter \<Rightarrow> string \<Rightarrow> string \<Rightarrow> (error + bool) \<times> Deleter" where
  "set_dandiset w d url ident =
     (case client d of
        None \<Rightarrow>
          (let c = \<lparr>DandiAPIClient.api_url = rstrip ''/'' url\<rparr>;
               d1 = d\<lparr>client := Some c\<rparr>
           in case dandi_authenticate w c of
                Some e \<Rightarrow> (Inl e, d1)
              | None \<Rightarrow>
                  (case get_dandiset w c ident (DRAFT w) of
                     Inr ds \<Rightarrow> (Inr True, d1\<lparr>dandiset := Some ds\<rparr>)
                   | Inl e \<Rightarrow>
                       if is_NotFoundError e
                       then (if skip_missing d1 then (Inr False, d1) else (Inl e, d1))
                       else (Inl e, d1)))
      | Some c \<Rightarrow>
          if \<not> is_same_url (DandiAPIClient.api_url c) url
          then (Inl (ValueError ''Cannot delete assets from multiple API instances at once''), d)
          else
            (case dandiset d of
               None \<Rightarrow> (Inl (NoneType_has_no ''identifier''), d)
             | Some ds \<Rightarrow>
                 if RemoteDandiset.identifier ds \<noteq> ident
                 then (Inl (ValueError ''Cannot delete assets from multiple Dandisets at once''), d)
                 else (Inr True, d)))"

definition add_asset :: "Deleter \<Rightarrow> RemoteAsset \<Rightarrow> Deleter" where
  "add_asset d asset =
     (if \<not> list_ex (\<lambda>a. RemoteAsset.identifier a = RemoteAsset.identifier asset) (remote_assets d)
      then d\<lparr>remote_assets := remote_assets d @ [asset]\<rparr>
      else d)"

definition register_dandiset :: "env \<Rightarrow> Deleter \<Rightarrow> string \<Rightarrow> string \<Rightarrow> (error + unit) \<times> Deleter" where
  "register_dandiset w d url ident =
     (case set_dandiset w d url ident of
        (Inl e, d1) \<Rightarrow> (Inl e, d1)
      | (Inr False, d1) \<Rightarrow> (Inr (), d1)
      | (Inr True, d1) \<Rightarrow> (Inr (), d1\<lparr>deleting_dandiset := True\<rparr>))"

text \<open>
  After a successful \<open>set_dandiset\<close> the method reads \<^verbatim>\<open>self.dandiset\<close>; on \<^verbatim>\<open>None\<close> the
  attribute access raises.
\<close>

definition the_dandiset :: "Deleter \<Rightarrow> string \<Rightarrow> error + RemoteDandiset" where
  "the_dandiset d attr =
     (case dandiset d of
        None \<Rightarrow> Inl (NoneType_has_no attr)
      | Some ds \<Rightarrow> Inr ds)"

definition register_asset ::
  "env \<Rightarrow> Deleter \<Rightarrow> string \<Rightarrow> string \<Rightarrow> string \<Rightarrow> string \<Rightarrow> (error + unit) \<times> Deleter" where
  "register_asset w d url ident version asset_path =
     (case set_dandiset w d url ident of
        (Inl e, d1) \<Rightarrow> (Inl e, d1)
      | (Inr False, d1) \<Rightarrow> (Inr (), d1)
      | (Inr True, d1) \<Rightarrow>
          (case the_dandiset d1 ''get_asset_by_path'' of
             Inl e \<Rightarrow> (Inl e, d1)
           | Inr ds \<Rightarrow>
               (case get_asset_by_path w ds asset_path of
                  Inr asset \<Rightarrow> (Inr (), add_asset d1 asset)
                | Inl e \<Rightarrow>
                    if is_NotFoundError e
                    then (if skip_missing d1 then (Inr (), d1)
                          else (Inl (NotFoundError (''Asset at path '' @ repr w asset_path
                                   @ '' not found in Dandiset '' @ ident)), d1))
                    else (Inl e, d1))))"

text \<open>The loop \<^verbatim>\<open>for asset in ...: self.add_asset(asset)\<close>.\<close>

definition add_assets :: "Deleter \<Rightarrow> RemoteAsset list \<Rightarrow> Deleter" where
  "add_assets d assets = foldl add_asset d assets"

definition register_asset_folder ::
  "env \<Rightarrow> Deleter \<Rightarrow> string \<Rightarrow> string \<Rightarrow> string \<Rightarrow> string \<Rightarrow> (error + unit) \<times> Deleter" where
  "register_asset_folder w d url ident version folder_path =
     (case set_dandiset w d url ident of
        (Inl e, d1) \<Rightarrow> (Inl e, d1)
      | (Inr False, d1) \<Rightarrow> (Inr (), d1)
      | (Inr True, d1) \<Rightarrow>
          (case the_dandiset d1 ''get_assets_with_path_prefix'' of
             Inl e \<Rightarrow> (Inl e, d1)
           | Inr ds \<Rightarrow>
               (let assets = get_assets_with_path_prefix w ds folder_path;
                    d2 = add_assets d1 assets;
                    any_assets = (assets \<noteq> [])
                in if \<not> any_assets \<and> \<not> skip_missing d2
                   then (Inl (NotFoundError (''No assets under path '' @ repr w folder_path
                            @ '' found in Dandiset '' @ ident)), d2)
                   else (Inr (), d2))))"

definition register_assets_url ::
  "env \<Rightarrow> Deleter \<Rightarrow> string \<Rightarrow> ParsedDandiURL \<Rightarrow> (error + unit) \<times> Deleter" where
  "register_assets_url w d url parsed_url =
     (case set_dandiset w d (ParsedDandiURL.api_url parsed_url) (dandiset_id parsed_url) of
        (Inl e, d1) \<Rightarrow> (Inl e, d1)
      | (Inr False, d1) \<Rightarrow> (Inr (), d1)
      | (Inr True, d1) \<Rightarrow>
          (let assets = get_assets w parsed_url (client d1);
               d2 = add_assets d1 assets;
               any_assets = (assets \<noteq> [])
           in if \<not> any_assets \<and> \<not> skip_missing d2
              then (Inl (NotFoundError (''No assets found for '' @ url)), d2)
              else (Inr (), d2)))"

definition register_url :: "env \<Rightarrow> Deleter \<Rightarrow> string \<Rightarrow> (error + unit) \<times> Deleter" where
  "register_url w d url =
     (case parse_dandi_url w url of
        Inl e \<Rightarrow> (Inl e, d)
      | Inr parsed_url \<Rightarrow>
          if isinstance_DandisetURL parsed_url
          then (if version_id parsed_url \<noteq> None
                then (Inl (NotImplementedError
                       ''Dandi API server does not support deletion of individual versions of a dandiset''), d)
                else register_dandiset w d (ParsedDandiURL.api_url parsed_url) (dandiset_id parsed_url))
          else
            (let parsed_url1 = (if version_id parsed_url = None
                                then parsed_url\<lparr>version_id := Some (DRAFT w)\<rparr> else parsed_url)
             in register_assets_url w d url parsed_url1))"

text \<open>
  \<^verbatim>\<open>find_local_asset\<close>: \<open>Dandiset_find\<close> stands for the walk upward from the absolute path
  (\<^verbatim>\<open>Dandiset.find(path.parent)\<close>) together with \<^verbatim>\<open>path.relative_to(dandiset.path)\<close>: it
  gives the Dandiset's identifier and the path relative to its root, or nothing when no
  root is found. \<open>is_dir\<close> is \<^verbatim>\<open>path.is_dir()\<close>; a directory gets a trailing slash.
\<close>

definition find_local_asset :: "env \<Rightarrow> string \<Rightarrow> error + (string \<times> string)" where
  "find_local_asset w filepath =
     (case Dandiset_find w filepath of
        None \<Rightarrow> Inl (RuntimeError
          (''Found no '' @ dandiset_metadata_file w @ '' anywhere.  Use '' @ quoted ''dandi download''
             @ '' or '' @ quoted ''organize'' @ '' first''))
      | Some (ident, relpath) \<Rightarrow>
          Inr (ident, if is_dir w filepath then relpath @ ''/'' else relpath))"

definition register_local_path_equivalent ::
  "env \<Rightarrow> Deleter \<Rightarrow> string \<Rightarrow> string \<Rightarrow> (error + unit) \<times> Deleter" where
  "register_local_path_equivalent w d instance_name filepath =
     (case get_instance w instance_name of
        Inl e \<Rightarrow> (Inl e, d)
      | Inr inst \<Rightarrow>
          (case find_local_asset w filepath of
             Inl e \<Rightarrow> (Inl e, d)
           | Inr (ident, asset_path) \<Rightarrow>
               (case set_dandiset w d (api inst) ident of
                  (Inl e, d1) \<Rightarrow> (Inl e, d1)
                | (Inr False, d1) \<Rightarrow> (Inr (), d1)
                | (Inr True, d1) \<Rightarrow>
                    if endswith_slash asset_path
                    then register_asset_folder w d1 (api inst) ident (DRAFT w) asset_path
                    else register_asset w d1 (api inst) ident (DRAFT w) asset_path)))"

text \<open>
  The registration loop of \<^verbatim>\<open>delete\<close>: the first exception ends it.
\<close>

fun delete_register :: "env \<Rightarrow> Deleter \<Rightarrow> string list \<Rightarrow> string \<Rightarrow> (error + unit) \<times> Deleter" where
  "delete_register w d [] dandi_instance = (Inr (), d)"
| "delete_register w d (p # ps) dandi_instance =
     (case (if is_url w p then register_url w d p
            else register_local_path_equivalent w d dandi_instance p) of
        (Inl e, d1) \<Rightarrow> (Inl e, d1)
      | (Inr u, d1) \<Rightarrow> delete_register w d1 ps dandi_instance)"

text \<open>
  A caller of the class may issue any registration in any order, and may catch an
  exception and go on: \<open>registrations\<close> is the Deleter after a list of calls, whatever
  each of them returned or raised.
\<close>

datatype registration =
    Register_dandiset string string
  | Register_asset string string string string
  | Register_asset_folder string string string string
  | Register_assets_url string ParsedDandiURL
  | Register_url string
  | Register_local_path_equivalent string string

fun register :: "env \<Rightarrow> Deleter \<Rightarrow> registration \<Rightarrow> (error + unit) \<times> Deleter" where
  "register w d (Register_dandiset url ident) = register_dandiset w d url ident"
| "register w d (Register_asset url ident version asset_path) =
     register_asset w d url ident version asset_path"
| "register w d (Register_asset_folder url ident version folder_path) =
     register_asset_folder w d url ident version folder_path"
| "register w d (Register_assets_url url parsed_url) = register_assets_url w d url parsed_url"
| "register w d (Register_url url) = register_url w d url"
| "register w d (Register_local_path_equivalent instance_name filepath) =
     register_local_path_equivalent w d instance_name filepath"

definition registrations :: "env \<Rightarrow> Deleter \<Rightarrow> registration list \<Rightarrow> Deleter" where
  "registrations w d rs = foldl (\<lambda>d1 r. snd (register w d1 r)) d rs"

subsection \<open>Execution\<close>

text \<open>
  A Python dict is the list of its items in insertion order. A generator is what happens
  while it is consumed: the dicts it yields and the collaborator calls it makes in
  between, and the exception that ends it, if one does. \<open>Print\<close> and \<open>Table_update\<close> are
  what \<^verbatim>\<open>delete\<close> does with a yielded dict.
\<close>

type_synonym dict = "(string \<times> string) list"

datatype event =
    Yield dict
  | Call_asset_delete RemoteAsset
  | Call_dandiset_delete RemoteDandiset
  | Print dict
  | Table_update string dict

type_synonym generator = "event list \<times> error option"

text \<open>The text of the prompt, once \<^verbatim>\<open>self.dandiset\<close> has been read.\<close>

definition confirm_msg :: "Deleter \<Rightarrow> RemoteDandiset \<Rightarrow> string" where
  "confirm_msg d ds =
     (if deleting_dandiset d
      then ''Delete Dandiset '' @ RemoteDandiset.identifier ds @ ''?''
      else ''Delete '' @ str_nat (length (remote_assets d)) @ '' assets on server from''
           @ '' Dandiset '' @ RemoteDandiset.identifier ds @ ''?'')"

definition confirm :: "env \<Rightarrow> Deleter \<Rightarrow> error + bool" where
  "confirm w d =
     (case the_dandiset d ''identifier'' of
        Inl e \<Rightarrow> Inl e
      | Inr ds \<Rightarrow> Inr (click_confirm w (confirm_msg d ds)))"

definition delete_dandiset :: "env \<Rightarrow> Deleter \<Rightarrow> (error + unit) \<times> event list" where
  "delete_dandiset w d =
     (if deleting_dandiset d
      then (case the_dandiset d ''delete'' of
              Inl e \<Rightarrow> (Inl e, [])
            | Inr ds \<Rightarrow>
                (case dandiset_delete w ds of
                   Some e \<Rightarrow> (Inl e, [Call_dandiset_delete ds])
                 | None \<Rightarrow> (Inr (), [Call_dandiset_delete ds])))
      else (Inl (RuntimeError
              ''delete_dandiset() called when Dandiset not registered for deletion''), []))"

text \<open>
  \<^verbatim>\<open>Deleter._process_asset\<close> (a name cannot start with an underscore here). An exception
  of \<^verbatim>\<open>asset.delete()\<close> that \<^verbatim>\<open>except Exception\<close> catches becomes the \<^verbatim>\<open>Error\<close> record;
  any other leaves the generator.
\<close>

definition process_asset :: "env \<Rightarrow> RemoteAsset \<Rightarrow> generator" where
  "process_asset w asset =
     (case asset_delete w asset of
        Some e \<Rightarrow>
          if is_Exception e
          then ([Yield [(''status'', ''Deleting'')],
                 Call_asset_delete asset,
                 Yield [(''status'', ''Error''), (''message'', type_name e @ '': '' @ str_error e)]],
                None)
          else ([Yield [(''status'', ''Deleting'')], Call_asset_delete asset], Some e)
      | None \<Rightarrow>
          ([Yield [(''status'', ''Deleting'')],
            Call_asset_delete asset,
            Yield [(''status'', ''Deleted'')]],
           None))"

text \<open>A row of the table: the path and the generator of its status cells.\<close>

definition process_assets_pyout :: "env \<Rightarrow> Deleter \<Rightarrow> (string \<times> generator) list" where
  "process_assets_pyout w d =
     map (\<lambda>asset. (path asset, process_asset w asset)) (sort_key path (remote_assets d))"

text \<open>\<^verbatim>\<open>{"path": asset.path, **d}\<close> for each dict the inner generator yields.\<close>

fun with_path :: "RemoteAsset \<Rightarrow> event \<Rightarrow> event" where
  "with_path asset (Yield r) = Yield ((''path'', path asset) # r)"
| "with_path asset ev = ev"

definition process_assets_debug :: "env \<Rightarrow> Deleter \<Rightarrow> generator list" where
  "process_assets_debug w d =
     map (\<lambda>asset. (map (with_path asset) (fst (process_asset w asset)), snd (process_asset w asset)))
         (sort_key path (remote_assets d))"

text \<open>
  Consuming generators one after the other: the first that ends with an exception ends
  the loop with it.
\<close>

fun consume :: "generator list \<Rightarrow> (error + unit) \<times> event list" where
  "consume [] = (Inr (), [])"
| "consume ((evs, Some e) # gens) = (Inl e, evs)"
| "consume ((evs, None) # gens) = (case consume gens of (r, evs1) \<Rightarrow> (r, evs @ evs1))"

text \<open>\<^verbatim>\<open>print(r, flush=True)\<close> for each yielded dict of the debug mode.\<close>

fun printed :: "event \<Rightarrow> event" where
  "printed (Yield r) = Print r"
| "printed ev = ev"

text \<open>The debug branch of \<^verbatim>\<open>delete\<close>: the two nested loops over \<open>process_assets_debug\<close>.\<close>

definition delete_debug :: "env \<Rightarrow> Deleter \<Rightarrow> (error + unit) \<times> event list" where
  "delete_debug w d =
     (case consume (process_assets_debug w d) of (r, evs) \<Rightarrow> (r, map printed evs))"

text \<open>
  The default branch of \<^verbatim>\<open>delete\<close>: each row of \<open>process_assets_pyout\<close> is handed to the
  table, which consumes the row's generator in a worker and shows each yielded dict
  in the row of that path. The model takes the rows in the order they are submitted.
\<close>

fun table_row :: "string \<Rightarrow> event \<Rightarrow> event" where
  "table_row p (Yield r) = Table_update p r"
| "table_row p ev = ev"

definition delete_table :: "env \<Rightarrow> Deleter \<Rightarrow> nat option \<Rightarrow> (error + unit) \<times> event list" where
  "delete_table w d jobs =
     consume (map (\<lambda>(p, gen). (map (table_row p) (fst gen), snd gen)) (process_assets_pyout w d))"

text \<open>
  \<^verbatim>\<open>delete\<close>: the outcome and what happened after the registrations (the collaborator
  calls that delete, the printed records, the table updates).
\<close>

definition delete ::
  "env \<Rightarrow> string list \<Rightarrow> string \<Rightarrow> bool \<Rightarrow> nat option \<Rightarrow> bool \<Rightarrow> bool \<Rightarrow> (error + unit) \<times> event list" where
  "delete w paths dandi_instance devel_debug jobs force sm =
     (case delete_register w (Deleter_init sm) paths dandi_instance of
        (Inl e, deleter) \<Rightarrow> (Inl e, [])
      | (Inr u, deleter) \<Rightarrow>
          if \<not> Deleter_bool deleter then (Inr (), [])
          else
            (case (if force then Inr True else confirm w deleter) of
               Inl e \<Rightarrow> (Inl e, [])
             | Inr False \<Rightarrow> (Inr (), [])
             | Inr True \<Rightarrow>
                 if deleting_dandiset deleter then delete_dandiset w deleter
                 else if devel_debug then delete_debug w deleter
                 else delete_table w deleter jobs))"






fun is_delete_call :: "event \<Rightarrow> bool" where
  "is_delete_call (Call_asset_delete a) = True"
| "is_delete_call (Call_dandiset_delete ds) = True"
| "is_delete_call ev = False"

definition delete_calls :: "event list \<Rightarrow> event list" where
  "delete_calls evs = filter is_delete_call evs"


text \<open>A Deleter that holds something to delete has a Dandiset handle.\<close>

definition bound_if_nonempty :: "Deleter \<Rightarrow> bool" where
  "bound_if_nonempty d = (Deleter_bool d \<longrightarrow> dandiset d \<noteq> None)"

subsection \<open>What the specification says of endpoint equality\<close>

text \<open>
  The specification's reading of the comparison: at most one trailing slash is removed
  from each side.
\<close>

definition strip_one_slash :: "string \<Rightarrow> string" where
  "strip_one_slash s = (if endswith_slash s then butlast s else s)"

definition spec_is_same_url :: "string \<Rightarrow> string \<Rightarrow> bool" where
  "spec_is_same_url url1 url2 = (strip_one_slash url1 = strip_one_slash url2)"

text \<open>A message names a text when the text occurs in it.\<close>

definition names :: "string \<Rightarrow> string \<Rightarrow> bool" where
  "names msg s = sublist s msg"

text \<open>The error of the second branch of \<^verbatim>\<open>set_dandiset\<close> that compares identifiers.\<close>

definition mixing_error :: error where
  "mixing_error = ValueError ''Cannot delete assets from multiple Dandisets at once''"

text \<open>The identifiers of the registered assets, in order.\<close>

definition ids :: "Deleter \<Rightarrow> string list" where
  "ids d = map RemoteAsset.identifier (remote_assets d)"

subsection \<open>An archive with one Dandiset and three assets\<close>

text \<open>
  A concrete environment on which the theorems below are evaluated: the archive holds
  Dandiset 000001 with three assets, the second of which cannot be deleted; the user
  answers no to every prompt.
\<close>

definition ex_api :: string where
  "ex_api = ''https://api.dandiarchive.org/api''"

definition ex_asset_a :: RemoteAsset where
  "ex_asset_a = \<lparr>RemoteAsset.identifier = ''id-a'', path = ''sub-01/a.nwb''\<rparr>"

definition ex_asset_b :: RemoteAsset where
  "ex_asset_b = \<lparr>RemoteAsset.identifier = ''id-b'', path = ''sub-01/b.nwb''\<rparr>"

definition ex_asset_c :: RemoteAsset where
  "ex_asset_c = \<lparr>RemoteAsset.identifier = ''id-c'', path = ''sub-02/c.nwb''\<rparr>"

definition ex_dandiset :: RemoteDandiset where
  "ex_dandiset = \<lparr>RemoteDandiset.identifier = ''000001''\<rparr>"

definition ex_url_dandiset :: string where
  "ex_url_dandiset = ''https://dandiarchive.org/dandiset/000001''"

definition ex_url_version :: string where
  "ex_url_version = ''https://dandiarchive.org/dandiset/000001/0.210831.2033''"

definition ex_url_folder :: string where
  "ex_url_folder = ''https://dandiarchive.org/dandiset/000001/draft/files?location=sub-01''"

definition ex_url_empty :: string where
  "ex_url_empty = ''https://dandiarchive.org/dandiset/000001/draft/files?location=sub-09''"

definition ex_url_missing :: string where
  "ex_url_missing = ''https://dandiarchive.org/dandiset/999999''"

definition ex_url_missing_version :: string where
  "ex_url_missing_version = ''https://dandiarchive.org/dandiset/999999/0.210831.2033''"

definition ex_parsed :: "bool \<Rightarrow> string \<Rightarrow> string option \<Rightarrow> ParsedDandiURL" where
  "ex_parsed whole ident version =
     \<lparr>isinstance_DandisetURL = whole, ParsedDandiURL.api_url = ex_api, dandiset_id = ident,
      version_id = version\<rparr>"

definition ex_env :: env where
  "ex_env =
     \<lparr>dandi_authenticate = (\<lambda>c. None),
      get_dandiset = (\<lambda>c ident version.
        if ident = ''000001'' then Inr ex_dandiset else Inl (NotFoundError ''No such Dandiset'')),
      get_asset_by_path = (\<lambda>ds p.
        case find (\<lambda>a. path a = p) [ex_asset_a, ex_asset_b, ex_asset_c] of
          Some a \<Rightarrow> Inr a
        | None \<Rightarrow> Inl (NotFoundError ''No such asset'')),
      get_assets_with_path_prefix = (\<lambda>ds p.
        filter (\<lambda>a. prefix p (path a)) [ex_asset_a, ex_asset_b, ex_asset_c]),
      parse_dandi_url = (\<lambda>url.
        if url = ex_url_dandiset then Inr (ex_parsed True ''000001'' None)
        else if url = ex_url_version then Inr (ex_parsed True ''000001'' (Some ''0.210831.2033''))
        else if url = ex_url_folder then Inr (ex_parsed False ''000001'' None)
        else if url = ex_url_empty then Inr (ex_parsed False ''000001'' (Some ''0.210831.2033''))
        else if url = ex_url_missing then Inr (ex_parsed True ''999999'' None)
        else if url = ex_url_missing_version
        then Inr (ex_parsed True ''999999'' (Some ''0.210831.2033''))
        else Inl (Exception ''UnknownURLError'' url)),
      get_assets = (\<lambda>parsed_url c.
        if version_id parsed_url = Some ''draft'' then [ex_asset_a, ex_asset_b] else []),
      get_instance = (\<lambda>name.
        if name = ''dandi'' then Inr \<lparr>api = ex_api\<rparr> else Inl (Exception ''UnknownInstanceError'' name)),
      is_url = (\<lambda>p. prefix ''https://'' p),
      Dandiset_find = (\<lambda>p.
        if p = ''/data/ds/sub-02'' then Some (''000001'', ''sub-02'')
        else if p = ''/data/ds/sub-01/a.nwb'' then Some (''000001'', ''sub-01/a.nwb'')
        else if p = ''/data/other/x.nwb'' then Some (''999999'', ''x.nwb'')
        else None),
      is_dir = (\<lambda>p. p = ''/data/ds/sub-02''),
      click_confirm = (\<lambda>msg. False),
      asset_delete = (\<lambda>a.
        if RemoteAsset.identifier a = ''id-b'' then Some (Exception ''HTTPError'' ''500 Server Error'')
        else None),
      dandiset_delete = (\<lambda>ds. None),
      repr = quoted,
      DRAFT = ''draft'',
      dandiset_metadata_file = ''dandiset.yaml''\<rparr>"


definition ex_bound :: Deleter where
  "ex_bound =
     \<lparr>client = Some \<lparr>DandiAPIClient.api_url = ex_api\<rparr>, dandiset = Some ex_dandiset,
      deleting_dandiset = False, skip_missing = False, remote_assets = []\<rparr>"

text \<open>The definitions a concrete evaluation unfolds.\<close>

lemmas ex_defs = ex_env_def ex_api_def ex_asset_a_def ex_asset_b_def ex_asset_c_def ex_dandiset_def
  ex_url_dandiset_def ex_url_version_def ex_url_folder_def ex_url_empty_def ex_url_missing_def
  ex_url_missing_version_def ex_parsed_def ex_bound_def

lemmas model_defs = set_dandiset_def register_dandiset_def register_asset_def register_asset_folder_def
  register_assets_url_def register_url_def register_local_path_equivalent_def find_local_asset_def
  add_asset_def add_assets_def the_dandiset_def is_same_url_def rstrip_def endswith_slash_def
  Deleter_init_def registrations_def Let_def

section \<open>Endpoint equality\<close>

lemma takeWhile_eq_replicate: "takeWhile (\<lambda>c. c = x) xs = replicate (length (takeWhile (\<lambda>c. c = x) xs)) x"
  by (induction xs) auto

lemma rstrip_slash_decomp:
  "\<exists>m. s = rstrip ''/'' s @ replicate m (CHR ''/'')"
proof -
  let ?P = "\<lambda>c. c = CHR ''/''"
  have "rev s = takeWhile ?P (rev s) @ dropWhile ?P (rev s)" by simp
  then have "s = rev (dropWhile ?P (rev s)) @ rev (takeWhile ?P (rev s))"
    by (metis rev_append rev_rev_ident)
  moreover have "rev (takeWhile ?P (rev s)) = replicate (length (takeWhile ?P (rev s))) (CHR ''/'')"
    using takeWhile_eq_replicate[of "CHR ''/''" "rev s"] by (metis rev_replicate)
  ultimately show ?thesis by (auto simp: rstrip_def)
qed

lemma rstrip_slash_last:
  "rstrip ''/'' s = [] \<or> last (rstrip ''/'' s) \<noteq> CHR ''/''"
proof (cases "dropWhile (\<lambda>c. c = CHR ''/'') (rev s)")
  case Nil
  then show ?thesis by (simp add: rstrip_def)
next
  case (Cons y ys)
  then have "y \<noteq> CHR ''/''" using hd_dropWhile[of "\<lambda>c. c = CHR ''/''" "rev s"] by auto
  with Cons show ?thesis by (simp add: rstrip_def)
qed

lemma rstrip_slash_core:
  assumes "core = [] \<or> last core \<noteq> CHR ''/''"
  shows "rstrip ''/'' (core @ replicate m (CHR ''/'')) = core"
proof -
  have a: "dropWhile (\<lambda>c. c = CHR ''/'') (replicate m (CHR ''/'') @ rev core) = dropWhile (\<lambda>c. c = CHR ''/'') (rev core)"
    by (induction m) auto
  have b: "dropWhile (\<lambda>c. c = CHR ''/'') (rev core) = rev core"
    using assms by (cases core rule: rev_cases) auto
  show ?thesis by (simp add: rstrip_def a b)
qed

text \<open>
  C3 (as amended). \<open>is_same_url\<close> holds exactly when both URLs are one text that does not
  end with a slash, each followed by any number of slashes: \<^verbatim>\<open>rstrip("/")\<close> removes every
  trailing slash, not one.
\<close>

theorem is_same_url_strips_all:
  "is_same_url url1 url2 \<longleftrightarrow>
     (\<exists>core m n. (core = [] \<or> last core \<noteq> CHR ''/'') \<and>
        url1 = core @ replicate m (CHR ''/'') \<and> url2 = core @ replicate n (CHR ''/''))"
proof
  assume h: "is_same_url url1 url2"
  obtain m where m: "url1 = rstrip ''/'' url1 @ replicate m (CHR ''/'')" using rstrip_slash_decomp by blast
  obtain n where n: "url2 = rstrip ''/'' url2 @ replicate n (CHR ''/'')" using rstrip_slash_decomp by blast
  from h have e: "rstrip ''/'' url2 = rstrip ''/'' url1" by (simp add: is_same_url_def)
  show "\<exists>core m n. (core = [] \<or> last core \<noteq> CHR ''/'') \<and>
        url1 = core @ replicate m (CHR ''/'') \<and> url2 = core @ replicate n (CHR ''/'')"
    using m n e rstrip_slash_last[of url1] by metis
next
  assume "\<exists>core m n. (core = [] \<or> last core \<noteq> CHR ''/'') \<and>
        url1 = core @ replicate m (CHR ''/'') \<and> url2 = core @ replicate n (CHR ''/'')"
  then obtain core m n where c: "core = [] \<or> last core \<noteq> CHR ''/''"
    and u: "url1 = core @ replicate m (CHR ''/'')" "url2 = core @ replicate n (CHR ''/'')"
    by blast
  show "is_same_url url1 url2"
    unfolding is_same_url_def u
    by (simp only: rstrip_slash_core[OF c])
qed

text \<open>Two slashes against none: the URLs are the same endpoint.\<close>

theorem is_same_url_strips_all_witness:
  "is_same_url ''https://api.dandiarchive.org/api//'' ''https://api.dandiarchive.org/api''"
proof -
  have "''https://api.dandiarchive.org/api//'' = ''https://api.dandiarchive.org/api'' @ replicate 2 (CHR ''/'')"
    by (simp add: numeral_2_eq_2)
  moreover have "''https://api.dandiarchive.org/api'' = ''https://api.dandiarchive.org/api'' @ replicate 0 (CHR ''/'')"
    by simp
  moreover have "''https://api.dandiarchive.org/api'' = [] \<or> last ''https://api.dandiarchive.org/api'' \<noteq> CHR ''/''"
    by simp
  ultimately show ?thesis
    using is_same_url_strips_all[of "''https://api.dandiarchive.org/api//''" "''https://api.dandiarchive.org/api''"]
    by blast
qed

text \<open>
  C3 as stated fails there: after removing one slash from each side the URLs still differ,
  and \<open>is_same_url\<close> holds.
\<close>

theorem is_same_url_one_slash_counterexample:
  "is_same_url ''https://api.dandiarchive.org/api//'' ''https://api.dandiarchive.org/api''
   \<and> \<not> spec_is_same_url ''https://api.dandiarchive.org/api//'' ''https://api.dandiarchive.org/api''"
  by (simp add: is_same_url_def rstrip_def spec_is_same_url_def strip_one_slash_def endswith_slash_def)

section \<open>Registration keeps the identifiers distinct\<close>

lemma set_dandiset_keeps:
  "remote_assets (snd (set_dandiset w d url ident)) = remote_assets d"
  "deleting_dandiset (snd (set_dandiset w d url ident)) = deleting_dandiset d"
  "skip_missing (snd (set_dandiset w d url ident)) = skip_missing d"
  by (auto simp: set_dandiset_def Let_def split: option.splits sum.splits)

lemma add_asset_distinct:
  "distinct (ids d) \<Longrightarrow> distinct (ids (add_asset d asset))"
  by (auto simp: ids_def add_asset_def list_ex_iff)

lemma add_asset_present:
  "RemoteAsset.identifier asset \<in> set (ids d) \<Longrightarrow> add_asset d asset = d"
  by (auto simp: ids_def add_asset_def list_ex_iff)

lemma add_assets_distinct:
  "distinct (ids d) \<Longrightarrow> distinct (ids (add_assets d assets))"
  unfolding add_assets_def
  by (induction assets arbitrary: d) (auto simp: add_asset_distinct)

lemma ids_set_dandiset: "ids (snd (set_dandiset w d url ident)) = ids d"
  by (simp add: ids_def set_dandiset_keeps)

lemma ids_set_dandiset': "set_dandiset w d url ident = (r, d1) \<Longrightarrow> ids d1 = ids d"
  using ids_set_dandiset[of w d url ident] by simp

lemma register_dandiset_ids: "ids (snd (register_dandiset w d url ident)) = ids d"
  by (auto simp: register_dandiset_def ids_def split: prod.splits sum.splits bool.splits dest!: ids_set_dandiset'[unfolded ids_def])

lemma register_asset_distinct:
  "distinct (ids d) \<Longrightarrow> distinct (ids (snd (register_asset w d url ident version asset_path)))"
  by (auto simp: register_asset_def add_asset_distinct
      split: prod.splits sum.splits bool.splits dest!: ids_set_dandiset')

lemma register_asset_folder_distinct:
  "distinct (ids d) \<Longrightarrow> distinct (ids (snd (register_asset_folder w d url ident version folder_path)))"
  by (auto simp: register_asset_folder_def Let_def add_assets_distinct
      split: prod.splits sum.splits bool.splits dest!: ids_set_dandiset')

lemma register_assets_url_distinct:
  "distinct (ids d) \<Longrightarrow> distinct (ids (snd (register_assets_url w d url parsed_url)))"
  by (auto simp: register_assets_url_def Let_def add_assets_distinct
      split: prod.splits sum.splits bool.splits option.splits dest!: ids_set_dandiset')

lemma register_url_distinct:
  "distinct (ids d) \<Longrightarrow> distinct (ids (snd (register_url w d url)))"
  by (auto simp: register_url_def Let_def register_assets_url_distinct register_dandiset_ids
      split: sum.splits)

lemma register_local_path_equivalent_distinct:
  "distinct (ids d) \<Longrightarrow> distinct (ids (snd (register_local_path_equivalent w d instance_name filepath)))"
  by (auto simp: register_local_path_equivalent_def register_asset_distinct register_asset_folder_distinct
      split: prod.splits sum.splits bool.splits dest!: ids_set_dandiset')

lemma register_distinct:
  "distinct (ids d) \<Longrightarrow> distinct (ids (snd (register w d r)))"
  by (cases r)
     (simp_all add: register_dandiset_ids register_asset_distinct register_asset_folder_distinct
        register_assets_url_distinct register_url_distinct register_local_path_equivalent_distinct)

lemma registrations_distinct:
  "distinct (ids d) \<Longrightarrow> distinct (ids (registrations w d rs))"
  unfolding registrations_def
  by (induction rs arbitrary: d) (simp_all add: register_distinct)

text \<open>
  C1. Whatever registrations are made, in whatever order and whatever each returns or
  raises, the identifiers of \<open>remote_assets\<close> stay pairwise different: from any Deleter
  that has no duplicate, and so from a fresh one; and adding an asset whose identifier is
  already registered leaves the Deleter as it was.
\<close>

theorem no_duplicate_identifier:
  "(distinct (map RemoteAsset.identifier (remote_assets d)) \<longrightarrow>
      distinct (map RemoteAsset.identifier (remote_assets (registrations w d rs))))
   \<and> distinct (map RemoteAsset.identifier (remote_assets (registrations w (Deleter_init sm) rs)))
   \<and> (RemoteAsset.identifier asset \<in> set (map RemoteAsset.identifier (remote_assets d)) \<longrightarrow>
        add_asset d asset = d)"
proof -
  have "distinct (ids (Deleter_init sm))" by (simp add: ids_def Deleter_init_def)
  then show ?thesis
    using registrations_distinct[of d w rs] registrations_distinct[of "Deleter_init sm" w rs]
      add_asset_present[of asset d]
    by (simp add: ids_def)
qed

text \<open>
  The same asset reached by path, by prefix, by URL and by local path is registered once.
\<close>

theorem no_duplicate_identifier_witness:
  "distinct (map RemoteAsset.identifier (remote_assets (ex_bound\<lparr>remote_assets := [ex_asset_a]\<rparr>)))
   \<and> remote_assets (registrations ex_env (ex_bound\<lparr>remote_assets := [ex_asset_a]\<rparr>)
         [Register_asset ex_api ''000001'' ''draft'' ''sub-01/a.nwb'',
          Register_asset_folder ex_api ''000001'' ''draft'' ''sub-01/'',
          Register_url ex_url_folder,
          Register_local_path_equivalent ''dandi'' ''/data/ds/sub-01/a.nwb'',
          Register_local_path_equivalent ''dandi'' ''/data/ds/sub-02''])
       = [ex_asset_a, ex_asset_b, ex_asset_c]
   \<and> distinct (map RemoteAsset.identifier (remote_assets
         (registrations ex_env (ex_bound\<lparr>remote_assets := [ex_asset_a]\<rparr>)
           [Register_asset ex_api ''000001'' ''draft'' ''sub-01/a.nwb'',
            Register_asset_folder ex_api ''000001'' ''draft'' ''sub-01/'',
            Register_url ex_url_folder,
            Register_local_path_equivalent ''dandi'' ''/data/ds/sub-01/a.nwb'',
            Register_local_path_equivalent ''dandi'' ''/data/ds/sub-02''])))
   \<and> RemoteAsset.identifier ex_asset_a
         \<in> set (map RemoteAsset.identifier (remote_assets (ex_bound\<lparr>remote_assets := [ex_asset_a]\<rparr>)))
   \<and> add_asset (ex_bound\<lparr>remote_assets := [ex_asset_a]\<rparr>) ex_asset_a
       = ex_bound\<lparr>remote_assets := [ex_asset_a]\<rparr>"
  using no_duplicate_identifier[of "ex_bound\<lparr>remote_assets := [ex_asset_a]\<rparr>" ex_env
      "[Register_asset ex_api ''000001'' ''draft'' ''sub-01/a.nwb'',
        Register_asset_folder ex_api ''000001'' ''draft'' ''sub-01/'',
        Register_url ex_url_folder,
        Register_local_path_equivalent ''dandi'' ''/data/ds/sub-01/a.nwb'',
        Register_local_path_equivalent ''dandi'' ''/data/ds/sub-02'']" False ex_asset_a]
  by (simp add: model_defs ex_defs)

section \<open>The session binder refuses a second Dandiset\<close>

lemma set_dandiset_bound:
  "client d = Some c \<Longrightarrow> dandiset d = Some ds \<Longrightarrow> is_same_url (DandiAPIClient.api_url c) url \<Longrightarrow>
   RemoteDandiset.identifier ds = ident \<Longrightarrow> set_dandiset w d url ident = (Inr True, d)"
  by (simp add: set_dandiset_def)

lemma set_dandiset_mixing:
  "client d = Some c \<Longrightarrow> dandiset d = Some ds \<Longrightarrow> is_same_url (DandiAPIClient.api_url c) url \<Longrightarrow>
   RemoteDandiset.identifier ds \<noteq> ident \<Longrightarrow> set_dandiset w d url ident = (Inl mixing_error, d)"
  by (simp add: set_dandiset_def mixing_error_def)

lemma set_dandiset_unbound:
  "client d = Some c \<Longrightarrow> dandiset d = None \<Longrightarrow> is_same_url (DandiAPIClient.api_url c) url \<Longrightarrow>
   set_dandiset w d url ident = (Inl (NoneType_has_no ''identifier''), d)"
  by (simp add: set_dandiset_def)

text \<open>When the binder raises and leaves the Deleter as it was, so does every registration that calls it.\<close>

lemma binder_raises_register_dandiset:
  "set_dandiset w d url ident = (Inl e, d) \<Longrightarrow> register_dandiset w d url ident = (Inl e, d)"
  by (simp add: register_dandiset_def)

lemma binder_raises_register_asset:
  "set_dandiset w d url ident = (Inl e, d) \<Longrightarrow> register_asset w d url ident version p = (Inl e, d)"
  by (simp add: register_asset_def)

lemma binder_raises_register_asset_folder:
  "set_dandiset w d url ident = (Inl e, d) \<Longrightarrow> register_asset_folder w d url ident version p = (Inl e, d)"
  by (simp add: register_asset_folder_def)

lemma binder_raises_register_assets_url:
  "set_dandiset w d (ParsedDandiURL.api_url pu) (dandiset_id pu) = (Inl e, d) \<Longrightarrow>
   register_assets_url w d u pu = (Inl e, d)"
  by (simp add: register_assets_url_def)

lemma binder_raises_register_url:
  "set_dandiset w d (ParsedDandiURL.api_url pu) (dandiset_id pu) = (Inl e, d) \<Longrightarrow>
   parse_dandi_url w u = Inr pu \<Longrightarrow> \<not> (isinstance_DandisetURL pu \<and> version_id pu \<noteq> None) \<Longrightarrow>
   register_url w d u = (Inl e, d)"
  by (auto simp: register_url_def register_assets_url_def register_dandiset_def)

lemma register_url_versioned:
  "parse_dandi_url w u = Inr pu \<Longrightarrow> isinstance_DandisetURL pu \<Longrightarrow> version_id pu \<noteq> None \<Longrightarrow>
   register_url w d u
     = (Inl (NotImplementedError
          ''Dandi API server does not support deletion of individual versions of a dandiset''), d)"
  by (simp add: register_url_def)

lemma binder_raises_register_local_path_equivalent:
  "set_dandiset w d (api inst) ident = (Inl e, d) \<Longrightarrow>
   get_instance w name = Inr inst \<Longrightarrow> find_local_asset w fp = Inr (ident, ap) \<Longrightarrow>
   register_local_path_equivalent w d name fp = (Inl e, d)"
  by (simp add: register_local_path_equivalent_def)

text \<open>
  C2 (as amended). A Deleter bound to a Dandiset on an endpoint refuses a registration
  that names another Dandiset identifier on that endpoint, and the Deleter returned with
  the error is the Deleter given. The binder and every registration method raise the
  \<^verbatim>\<open>ValueError\<close> of mixed Dandisets, but for one call: \<open>register_url\<close> of a whole-Dandiset
  URL that carries a version raises \<^verbatim>\<open>NotImplementedError\<close>, before the binder is asked.
  For \<open>register_url\<close> and \<open>register_local_path_equivalent\<close> the endpoint and the
  identifier are those the URL or the local path resolves to.
\<close>

theorem mixing_dandisets_rejected:
  assumes "client d = Some c" and "dandiset d = Some ds"
    and "is_same_url (DandiAPIClient.api_url c) url"
    and "RemoteDandiset.identifier ds \<noteq> ident"
  shows "set_dandiset w d url ident
           = (Inl (ValueError ''Cannot delete assets from multiple Dandisets at once''), d)
    \<and> register_dandiset w d url ident
           = (Inl (ValueError ''Cannot delete assets from multiple Dandisets at once''), d)
    \<and> register_asset w d url ident version p
           = (Inl (ValueError ''Cannot delete assets from multiple Dandisets at once''), d)
    \<and> register_asset_folder w d url ident version p
           = (Inl (ValueError ''Cannot delete assets from multiple Dandisets at once''), d)
    \<and> (ParsedDandiURL.api_url pu = url \<and> dandiset_id pu = ident \<longrightarrow>
         register_assets_url w d u pu
           = (Inl (ValueError ''Cannot delete assets from multiple Dandisets at once''), d))
    \<and> (parse_dandi_url w u = Inr pu \<and> ParsedDandiURL.api_url pu = url \<and> dandiset_id pu = ident \<longrightarrow>
         register_url w d u
           = (Inl (if isinstance_DandisetURL pu \<and> version_id pu \<noteq> None
                   then NotImplementedError
                     ''Dandi API server does not support deletion of individual versions of a dandiset''
                   else ValueError ''Cannot delete assets from multiple Dandisets at once''), d))
    \<and> (get_instance w name = Inr inst \<and> api inst = url \<and> find_local_asset w fp = Inr (ident, ap) \<longrightarrow>
         register_local_path_equivalent w d name fp
           = (Inl (ValueError ''Cannot delete assets from multiple Dandisets at once''), d))"
proof -
  have b: "set_dandiset w d url ident = (Inl mixing_error, d)"
    using assms by (rule set_dandiset_mixing)
  show ?thesis
    unfolding mixing_error_def[symmetric]
    using b binder_raises_register_dandiset[OF b] binder_raises_register_asset[OF b]
      binder_raises_register_asset_folder[OF b]
      binder_raises_register_assets_url[of w d pu mixing_error u]
      binder_raises_register_url[of w d pu mixing_error u]
      register_url_versioned[of w u pu d]
      binder_raises_register_local_path_equivalent[of w d inst ident mixing_error name fp ap]
    by auto
qed


text \<open>Bound to 000001, the Deleter is asked for 999999 by path, by URL and by local path.\<close>

theorem mixing_dandisets_rejected_witness:
  "client ex_bound = Some \<lparr>DandiAPIClient.api_url = ex_api\<rparr>
   \<and> dandiset ex_bound = Some ex_dandiset
   \<and> is_same_url (DandiAPIClient.api_url \<lparr>DandiAPIClient.api_url = ex_api\<rparr>) ex_api
   \<and> RemoteDandiset.identifier ex_dandiset \<noteq> ''999999''
   \<and> register_asset ex_env ex_bound ex_api ''999999'' ''draft'' ''sub-01/a.nwb''
         = (Inl (ValueError ''Cannot delete assets from multiple Dandisets at once''), ex_bound)
   \<and> parse_dandi_url ex_env ex_url_missing = Inr (ex_parsed True ''999999'' None)
   \<and> register_url ex_env ex_bound ex_url_missing
         = (Inl (ValueError ''Cannot delete assets from multiple Dandisets at once''), ex_bound)
   \<and> get_instance ex_env ''dandi'' = Inr \<lparr>api = ex_api\<rparr>
   \<and> find_local_asset ex_env ''/data/other/x.nwb'' = Inr (''999999'', ''x.nwb'')
   \<and> register_local_path_equivalent ex_env ex_bound ''dandi'' ''/data/other/x.nwb''
         = (Inl (ValueError ''Cannot delete assets from multiple Dandisets at once''), ex_bound)"
  using mixing_dandisets_rejected[of ex_bound "\<lparr>DandiAPIClient.api_url = ex_api\<rparr>" ex_dandiset ex_api
      "''999999''" ex_env "''draft''" "''sub-01/a.nwb''" "ex_parsed True ''999999'' None"
      ex_url_missing "''dandi''" "\<lparr>api = ex_api\<rparr>" "''/data/other/x.nwb''" "''x.nwb''"]
  by (simp add: ex_defs is_same_url_def find_local_asset_def)

text \<open>
  C2 as stated fails there: bound to 000001, the Deleter is given the URL of a version of
  Dandiset 999999 on the same endpoint and raises \<^verbatim>\<open>NotImplementedError\<close>, not the
  \<^verbatim>\<open>ValueError\<close>.
\<close>

theorem mixing_versioned_url_counterexample:
  "client ex_bound = Some \<lparr>DandiAPIClient.api_url = ex_api\<rparr>
   \<and> dandiset ex_bound = Some ex_dandiset
   \<and> RemoteDandiset.identifier ex_dandiset \<noteq> ''999999''
   \<and> parse_dandi_url ex_env ex_url_missing_version
        = Inr (ex_parsed True ''999999'' (Some ''0.210831.2033''))
   \<and> is_same_url ex_api (ParsedDandiURL.api_url (ex_parsed True ''999999'' (Some ''0.210831.2033'')))
   \<and> register_url ex_env ex_bound ex_url_missing_version
        = (Inl (NotImplementedError
             ''Dandi API server does not support deletion of individual versions of a dandiset''),
           ex_bound)
   \<and> register_url ex_env ex_bound ex_url_missing_version
        \<noteq> (Inl (ValueError ''Cannot delete assets from multiple Dandisets at once''), ex_bound)"
  by (simp add: ex_defs model_defs)

lemma rstrip_slash_idem: "rstrip ''/'' (rstrip ''/'' s) = rstrip ''/'' s"
  using rstrip_slash_core[OF rstrip_slash_last[of s], of 0] by simp

lemma is_same_url_rstrip: "is_same_url (rstrip ''/'' url) url' = is_same_url url url'"
  by (simp add: is_same_url_def rstrip_slash_idem)

lemma set_dandiset_missing:
  assumes "client d = None" and "skip_missing d"
    and "dandi_authenticate w \<lparr>DandiAPIClient.api_url = rstrip ''/'' url\<rparr> = None"
    and "get_dandiset w \<lparr>DandiAPIClient.api_url = rstrip ''/'' url\<rparr> ident (DRAFT w) = Inl e"
    and "is_NotFoundError e"
  shows "set_dandiset w d url ident
           = (Inr False, d\<lparr>client := Some \<lparr>DandiAPIClient.api_url = rstrip ''/'' url\<rparr>\<rparr>)"
  using assms by (simp add: set_dandiset_def)

text \<open>
  C9 (as amended). With \<open>skip_missing\<close>, a first registration on a fresh Deleter whose
  Dandiset does not exist is a no-op that leaves \<open>client\<close> set and \<open>dandiset\<close> unset. Every
  later registration on the same endpoint, for any identifier, leaves the Deleter as it
  was and raises: the \<^verbatim>\<open>AttributeError\<close> of reading \<^verbatim>\<open>self.dandiset.identifier\<close> on
  \<^verbatim>\<open>None\<close>, but for one call, \<open>register_url\<close> of a whole-Dandiset URL that carries a
  version, which raises \<^verbatim>\<open>NotImplementedError\<close> before the binder is asked.
\<close>

theorem missing_dandiset_then_attribute_error:
  assumes "client d = None" and "dandiset d = None" and "skip_missing d"
    and "dandi_authenticate w \<lparr>DandiAPIClient.api_url = rstrip ''/'' url\<rparr> = None"
    and "get_dandiset w \<lparr>DandiAPIClient.api_url = rstrip ''/'' url\<rparr> ident (DRAFT w) = Inl e"
    and "is_NotFoundError e"
    and "is_same_url url url'"
  shows "(let d1 = d\<lparr>client := Some \<lparr>DandiAPIClient.api_url = rstrip ''/'' url\<rparr>\<rparr> in
      set_dandiset w d url ident = (Inr False, d1)
    \<and> register_dandiset w d url ident = (Inr (), d1)
    \<and> register_asset w d url ident version p = (Inr (), d1)
    \<and> register_asset_folder w d url ident version p = (Inr (), d1)
    \<and> client d1 \<noteq> None \<and> dandiset d1 = None
    \<and> set_dandiset w d1 url' ident' = (Inl (NoneType_has_no ''identifier''), d1)
    \<and> register_dandiset w d1 url' ident' = (Inl (NoneType_has_no ''identifier''), d1)
    \<and> register_asset w d1 url' ident' version' p' = (Inl (NoneType_has_no ''identifier''), d1)
    \<and> register_asset_folder w d1 url' ident' version' p' = (Inl (NoneType_has_no ''identifier''), d1)
    \<and> (ParsedDandiURL.api_url pu = url' \<and> dandiset_id pu = ident' \<longrightarrow>
         register_assets_url w d1 u pu = (Inl (NoneType_has_no ''identifier''), d1))
    \<and> (parse_dandi_url w u = Inr pu \<and> ParsedDandiURL.api_url pu = url' \<and> dandiset_id pu = ident' \<longrightarrow>
         register_url w d1 u
           = (Inl (if isinstance_DandisetURL pu \<and> version_id pu \<noteq> None
                   then NotImplementedError
                     ''Dandi API server does not support deletion of individual versions of a dandiset''
                   else NoneType_has_no ''identifier''), d1))
    \<and> (get_instance w name = Inr inst \<and> api inst = url' \<and> find_local_asset w fp = Inr (ident', ap) \<longrightarrow>
         register_local_path_equivalent w d1 name fp = (Inl (NoneType_has_no ''identifier''), d1)))"
proof -
  define d1 where "d1 = d\<lparr>client := Some \<lparr>DandiAPIClient.api_url = rstrip ''/'' url\<rparr>\<rparr>"
  have first: "set_dandiset w d url ident = (Inr False, d1)"
    unfolding d1_def using assms(1,3,4,5,6) by (rule set_dandiset_missing)
  have c: "client d1 = Some \<lparr>DandiAPIClient.api_url = rstrip ''/'' url\<rparr>" and n: "dandiset d1 = None"
    using assms(2) by (simp_all add: d1_def)
  have same: "is_same_url (DandiAPIClient.api_url \<lparr>DandiAPIClient.api_url = rstrip ''/'' url\<rparr>) url'"
    using assms(7) by (simp add: is_same_url_rstrip)
  have b: "set_dandiset w d1 url' ident' = (Inl (NoneType_has_no ''identifier''), d1)"
    using c n same by (rule set_dandiset_unbound)
  have "set_dandiset w d url ident = (Inr False, d1)
    \<and> register_dandiset w d url ident = (Inr (), d1)
    \<and> register_asset w d url ident version p = (Inr (), d1)
    \<and> register_asset_folder w d url ident version p = (Inr (), d1)"
    using first by (simp add: register_dandiset_def register_asset_def register_asset_folder_def)
  moreover have "client d1 \<noteq> None \<and> dandiset d1 = None" using c n by simp
  moreover have "set_dandiset w d1 url' ident' = (Inl (NoneType_has_no ''identifier''), d1)
    \<and> register_dandiset w d1 url' ident' = (Inl (NoneType_has_no ''identifier''), d1)
    \<and> register_asset w d1 url' ident' version' p' = (Inl (NoneType_has_no ''identifier''), d1)
    \<and> register_asset_folder w d1 url' ident' version' p' = (Inl (NoneType_has_no ''identifier''), d1)"
    using b binder_raises_register_dandiset[OF b] binder_raises_register_asset[OF b]
      binder_raises_register_asset_folder[OF b] by simp
  moreover have "ParsedDandiURL.api_url pu = url' \<and> dandiset_id pu = ident' \<longrightarrow>
         register_assets_url w d1 u pu = (Inl (NoneType_has_no ''identifier''), d1)"
    using b binder_raises_register_assets_url[of w d1 pu _ u] by auto
  moreover have "parse_dandi_url w u = Inr pu \<and> ParsedDandiURL.api_url pu = url' \<and> dandiset_id pu = ident' \<longrightarrow>
         register_url w d1 u
           = (Inl (if isinstance_DandisetURL pu \<and> version_id pu \<noteq> None
                   then NotImplementedError
                     ''Dandi API server does not support deletion of individual versions of a dandiset''
                   else NoneType_has_no ''identifier''), d1)"
    using b binder_raises_register_url[of w d1 pu _ u] register_url_versioned[of w u pu d1] by auto
  moreover have "get_instance w name = Inr inst \<and> api inst = url' \<and> find_local_asset w fp = Inr (ident', ap) \<longrightarrow>
         register_local_path_equivalent w d1 name fp = (Inl (NoneType_has_no ''identifier''), d1)"
    using b binder_raises_register_local_path_equivalent[of w d1 inst ident' _ name fp ap] by auto
  ultimately show ?thesis
    unfolding Let_def d1_def[symmetric] by blast
qed


text \<open>Dandiset 999999 is missing from the archive; it is registered twice.\<close>

theorem missing_dandiset_then_attribute_error_witness:
  "client (Deleter_init True) = None \<and> dandiset (Deleter_init True) = None
   \<and> skip_missing (Deleter_init True)
   \<and> dandi_authenticate ex_env \<lparr>DandiAPIClient.api_url = rstrip ''/'' (ex_api @ ''/'')\<rparr> = None
   \<and> get_dandiset ex_env \<lparr>DandiAPIClient.api_url = rstrip ''/'' (ex_api @ ''/'')\<rparr> ''999999''
         (DRAFT ex_env) = Inl (NotFoundError ''No such Dandiset'')
   \<and> is_NotFoundError (NotFoundError ''No such Dandiset'')
   \<and> is_same_url (ex_api @ ''/'') ex_api
   \<and> register_dandiset ex_env (Deleter_init True) (ex_api @ ''/'') ''999999''
       = (Inr (), (Deleter_init True)\<lparr>client := Some \<lparr>DandiAPIClient.api_url = ex_api\<rparr>\<rparr>)
   \<and> register_asset ex_env ((Deleter_init True)\<lparr>client := Some \<lparr>DandiAPIClient.api_url = ex_api\<rparr>\<rparr>)
         ex_api ''999999'' ''draft'' ''sub-01/a.nwb''
       = (Inl (NoneType_has_no ''identifier''),
          (Deleter_init True)\<lparr>client := Some \<lparr>DandiAPIClient.api_url = ex_api\<rparr>\<rparr>)
   \<and> parse_dandi_url ex_env ex_url_missing = Inr (ex_parsed True ''999999'' None)
   \<and> register_url ex_env ((Deleter_init True)\<lparr>client := Some \<lparr>DandiAPIClient.api_url = ex_api\<rparr>\<rparr>)
         ex_url_missing
       = (Inl (NoneType_has_no ''identifier''),
          (Deleter_init True)\<lparr>client := Some \<lparr>DandiAPIClient.api_url = ex_api\<rparr>\<rparr>)
   \<and> get_instance ex_env ''dandi'' = Inr \<lparr>api = ex_api\<rparr>
   \<and> find_local_asset ex_env ''/data/other/x.nwb'' = Inr (''999999'', ''x.nwb'')
   \<and> register_local_path_equivalent ex_env
         ((Deleter_init True)\<lparr>client := Some \<lparr>DandiAPIClient.api_url = ex_api\<rparr>\<rparr>)
         ''dandi'' ''/data/other/x.nwb''
       = (Inl (NoneType_has_no ''identifier''),
          (Deleter_init True)\<lparr>client := Some \<lparr>DandiAPIClient.api_url = ex_api\<rparr>\<rparr>)"
proof -
  have r: "rstrip ''/'' (ex_api @ ''/'') = ex_api"
    by (simp add: rstrip_def ex_api_def)
  show ?thesis
    using missing_dandiset_then_attribute_error[of "Deleter_init True" ex_env "ex_api @ ''/''" "''999999''"
      "NotFoundError ''No such Dandiset''" ex_api "''draft''" "''sub-01/a.nwb''" "''999999''"
      "''draft''" "''sub-01/a.nwb''" "ex_parsed True ''999999'' None" ex_url_missing
      "''dandi''" "\<lparr>api = ex_api\<rparr>" "''/data/other/x.nwb''" "''x.nwb''"]
    unfolding r Let_def
    by (simp add: ex_defs is_same_url_def rstrip_def find_local_asset_def Deleter_init_def)
qed

text \<open>
  C9 as stated fails there: after the missing Dandiset 999999 has been skipped, the URL
  of one of its versions, on the same endpoint, raises \<^verbatim>\<open>NotImplementedError\<close> and not
  the \<^verbatim>\<open>AttributeError\<close>.
\<close>

theorem missing_dandiset_versioned_url_counterexample:
  "register_url ex_env (Deleter_init True) ex_url_missing
     = (Inr (), (Deleter_init True)\<lparr>client := Some \<lparr>DandiAPIClient.api_url = ex_api\<rparr>\<rparr>)
   \<and> dandiset ((Deleter_init True)\<lparr>client := Some \<lparr>DandiAPIClient.api_url = ex_api\<rparr>\<rparr>) = None
   \<and> parse_dandi_url ex_env ex_url_missing_version
        = Inr (ex_parsed True ''999999'' (Some ''0.210831.2033''))
   \<and> is_same_url ex_api (ParsedDandiURL.api_url (ex_parsed True ''999999'' (Some ''0.210831.2033'')))
   \<and> register_url ex_env ((Deleter_init True)\<lparr>client := Some \<lparr>DandiAPIClient.api_url = ex_api\<rparr>\<rparr>)
        ex_url_missing_version
     = (Inl (NotImplementedError
          ''Dandi API server does not support deletion of individual versions of a dandiset''),
        (Deleter_init True)\<lparr>client := Some \<lparr>DandiAPIClient.api_url = ex_api\<rparr>\<rparr>)
   \<and> register_url ex_env ((Deleter_init True)\<lparr>client := Some \<lparr>DandiAPIClient.api_url = ex_api\<rparr>\<rparr>)
        ex_url_missing_version
     \<noteq> (Inl (NoneType_has_no ''identifier''),
        (Deleter_init True)\<lparr>client := Some \<lparr>DandiAPIClient.api_url = ex_api\<rparr>\<rparr>)"
  by (simp add: ex_defs model_defs NoneType_has_no_def)

section \<open>Whole-Dandiset URLs\<close>

text \<open>
  C7. A URL that parses to a whole-Dandiset reference with a version makes
  \<open>register_url\<close> raise \<^verbatim>\<open>NotImplementedError\<close> on any Deleter, whatever its
  \<open>skip_missing\<close>, and the Deleter is untouched. When the parse result is the same
  reference without a version, \<open>register_url\<close> is \<open>register_dandiset\<close> on its endpoint
  and identifier, which sets \<open>deleting_dandiset\<close> once the binder has bound.
\<close>

theorem versioned_dandiset_url_not_implemented:
  "(parse_dandi_url w u = Inr pu \<and> isinstance_DandisetURL pu \<and> version_id pu = Some v \<longrightarrow>
      register_url w d u
        = (Inl (NotImplementedError
             ''Dandi API server does not support deletion of individual versions of a dandiset''), d))
   \<and> (parse_dandi_url w u' = Inr (pu\<lparr>version_id := None\<rparr>) \<and> isinstance_DandisetURL pu \<longrightarrow>
      register_url w d u' = register_dandiset w d (ParsedDandiURL.api_url pu) (dandiset_id pu)
      \<and> (set_dandiset w d (ParsedDandiURL.api_url pu) (dandiset_id pu) = (Inr True, d1) \<longrightarrow>
           register_url w d u' = (Inr (), d1\<lparr>deleting_dandiset := True\<rparr>)))"
  by (auto simp: register_url_def register_dandiset_def)

text \<open>
  The versioned URL of Dandiset 000001 is refused with and without \<open>skip_missing\<close>; the
  URL without a version binds a fresh Deleter and sets the whole-Dandiset mode.
\<close>

theorem versioned_dandiset_url_not_implemented_witness:
  "parse_dandi_url ex_env ex_url_version = Inr (ex_parsed True ''000001'' (Some ''0.210831.2033''))
   \<and> isinstance_DandisetURL (ex_parsed True ''000001'' (Some ''0.210831.2033''))
   \<and> register_url ex_env (Deleter_init True) ex_url_version
        = (Inl (NotImplementedError
             ''Dandi API server does not support deletion of individual versions of a dandiset''),
           Deleter_init True)
   \<and> parse_dandi_url ex_env ex_url_dandiset
        = Inr ((ex_parsed True ''000001'' (Some ''0.210831.2033''))\<lparr>version_id := None\<rparr>)
   \<and> set_dandiset ex_env (Deleter_init True) ex_api ''000001''
        = (Inr True, (Deleter_init True)\<lparr>client := Some \<lparr>DandiAPIClient.api_url = ex_api\<rparr>,
                                          dandiset := Some ex_dandiset\<rparr>)
   \<and> register_url ex_env (Deleter_init True) ex_url_dandiset
        = (Inr (), \<lparr>client = Some \<lparr>DandiAPIClient.api_url = ex_api\<rparr>, dandiset = Some ex_dandiset,
                    deleting_dandiset = True, skip_missing = True, remote_assets = []\<rparr>)"
  using versioned_dandiset_url_not_implemented[of ex_env ex_url_version
      "ex_parsed True ''000001'' (Some ''0.210831.2033'')" "''0.210831.2033''" "Deleter_init True"
      ex_url_dandiset
      "(Deleter_init True)\<lparr>client := Some \<lparr>DandiAPIClient.api_url = ex_api\<rparr>,
                            dandiset := Some ex_dandiset\<rparr>"]
  by (simp add: ex_defs model_defs)

section \<open>The version argument\<close>

lemma add_asset_keeps:
  "client (add_asset d asset) = client d"
  "dandiset (add_asset d asset) = dandiset d"
  "deleting_dandiset (add_asset d asset) = deleting_dandiset d"
  "skip_missing (add_asset d asset) = skip_missing d"
  by (simp_all add: add_asset_def)

lemma add_assets_keeps:
  "client (add_assets d assets) = client d"
  "dandiset (add_assets d assets) = dandiset d"
  "deleting_dandiset (add_assets d assets) = deleting_dandiset d"
  "skip_missing (add_assets d assets) = skip_missing d"
  unfolding add_assets_def
  by (induction assets arbitrary: d) (simp_all add: add_asset_keeps)

lemma set_dandiset_fresh:
  assumes "client d = None"
    and "dandi_authenticate w \<lparr>DandiAPIClient.api_url = rstrip ''/'' url\<rparr> = None"
    and "get_dandiset w \<lparr>DandiAPIClient.api_url = rstrip ''/'' url\<rparr> ident (DRAFT w) = Inr ds"
  shows "set_dandiset w d url ident
           = (Inr True, d\<lparr>client := Some \<lparr>DandiAPIClient.api_url = rstrip ''/'' url\<rparr>,
                          dandiset := Some ds\<rparr>)"
  using assms by (simp add: set_dandiset_def)

text \<open>
  C10. \<open>register_asset\<close> and \<open>register_asset_folder\<close> do not read their \<open>version_id\<close>:
  two calls that differ in it only return the same outcome and the same Deleter. The
  handle they look assets up in is the one the binder fetched with \<open>DRAFT\<close>, whatever the
  version passed.
\<close>

theorem version_id_ignored:
  "register_asset w d url ident version p = register_asset w d url ident version' p
   \<and> register_asset_folder w d url ident version p = register_asset_folder w d url ident version' p
   \<and> (client d = None
        \<and> dandi_authenticate w \<lparr>DandiAPIClient.api_url = rstrip ''/'' url\<rparr> = None
        \<and> get_dandiset w \<lparr>DandiAPIClient.api_url = rstrip ''/'' url\<rparr> ident (DRAFT w) = Inr ds \<longrightarrow>
        dandiset (snd (register_asset w d url ident version p)) = Some ds
        \<and> dandiset (snd (register_asset_folder w d url ident version p)) = Some ds)"
proof -
  have "dandiset (snd (register_asset w d url ident version p)) = Some ds
        \<and> dandiset (snd (register_asset_folder w d url ident version p)) = Some ds"
    if "client d = None"
      and "dandi_authenticate w \<lparr>DandiAPIClient.api_url = rstrip ''/'' url\<rparr> = None"
      and "get_dandiset w \<lparr>DandiAPIClient.api_url = rstrip ''/'' url\<rparr> ident (DRAFT w) = Inr ds"
    using set_dandiset_fresh[OF that]
    by (simp add: register_asset_def register_asset_folder_def the_dandiset_def Let_def
        add_asset_keeps add_assets_keeps split: sum.splits)
  then show ?thesis
    by (simp add: register_asset_def register_asset_folder_def)
qed

text \<open>
  A fresh Deleter asked for an asset of 000001 at a published version holds the draft
  handle afterwards, as it does when asked at the draft version.
\<close>

theorem version_id_ignored_witness:
  "client (Deleter_init False) = None
   \<and> dandi_authenticate ex_env \<lparr>DandiAPIClient.api_url = rstrip ''/'' ex_api\<rparr> = None
   \<and> get_dandiset ex_env \<lparr>DandiAPIClient.api_url = rstrip ''/'' ex_api\<rparr> ''000001'' (DRAFT ex_env)
        = Inr ex_dandiset
   \<and> register_asset ex_env (Deleter_init False) ex_api ''000001'' ''0.210831.2033'' ''sub-01/a.nwb''
        = register_asset ex_env (Deleter_init False) ex_api ''000001'' ''draft'' ''sub-01/a.nwb''
   \<and> dandiset (snd (register_asset ex_env (Deleter_init False) ex_api ''000001'' ''0.210831.2033''
        ''sub-01/a.nwb'')) = Some ex_dandiset
   \<and> remote_assets (snd (register_asset ex_env (Deleter_init False) ex_api ''000001''
        ''0.210831.2033'' ''sub-01/a.nwb'')) = [ex_asset_a]"
  using version_id_ignored[of ex_env "Deleter_init False" ex_api "''000001''" "''0.210831.2033''"
      "''sub-01/a.nwb''" "''draft''" ex_dandiset]
  by (simp add: ex_defs model_defs)


section \<open>Targets that are not found\<close>

lemma names_parts:
  "names (a @ s @ b) s" "names (a @ s) s" "names (a @ x @ b @ s) s"
  unfolding names_def sublist_def
  by (metis append.assoc, metis append_Nil2, metis append.assoc append_Nil2)

text \<open>
  C4 (as amended). A Deleter without \<open>skip_missing\<close>, bound to the Dandiset the
  registration names, raises \<^verbatim>\<open>NotFoundError\<close> and stays as it was when the asset path
  does not exist, when the prefix matches no asset and when the URL gives no asset. For a
  path or a prefix the message holds the \<^verbatim>\<open>repr\<close> of the target and the Dandiset
  identifier; for a URL the message is \<^verbatim>\<open>No assets found for\<close> followed by the URL, and
  names the URL only.
\<close>

theorem not_found_messages:
  assumes "client d = Some c" and "dandiset d = Some ds" and "\<not> skip_missing d"
    and "is_same_url (DandiAPIClient.api_url c) url"
    and "RemoteDandiset.identifier ds = ident"
  shows "(get_asset_by_path w ds p = Inl e \<and> is_NotFoundError e \<longrightarrow>
       register_asset w d url ident version p
         = (Inl (NotFoundError (''Asset at path '' @ repr w p @ '' not found in Dandiset '' @ ident)), d)
       \<and> names (''Asset at path '' @ repr w p @ '' not found in Dandiset '' @ ident) (repr w p)
       \<and> names (''Asset at path '' @ repr w p @ '' not found in Dandiset '' @ ident) ident)
    \<and> (get_assets_with_path_prefix w ds p = [] \<longrightarrow>
       register_asset_folder w d url ident version p
         = (Inl (NotFoundError (''No assets under path '' @ repr w p @ '' found in Dandiset '' @ ident)), d)
       \<and> names (''No assets under path '' @ repr w p @ '' found in Dandiset '' @ ident) (repr w p)
       \<and> names (''No assets under path '' @ repr w p @ '' found in Dandiset '' @ ident) ident)
    \<and> (ParsedDandiURL.api_url pu = url \<and> dandiset_id pu = ident \<and> get_assets w pu (Some c) = [] \<longrightarrow>
       register_assets_url w d u pu = (Inl (NotFoundError (''No assets found for '' @ u)), d)
       \<and> names (''No assets found for '' @ u) u)
    \<and> (parse_dandi_url w u = Inr pu \<and> \<not> isinstance_DandisetURL pu
        \<and> ParsedDandiURL.api_url pu = url \<and> dandiset_id pu = ident
        \<and> get_assets w (if version_id pu = None then pu\<lparr>version_id := Some (DRAFT w)\<rparr> else pu) (Some c) = [] \<longrightarrow>
       register_url w d u = (Inl (NotFoundError (''No assets found for '' @ u)), d))"
proof -
  have b: "set_dandiset w d url ident = (Inr True, d)"
    using assms(1,2,4,5) by (rule set_dandiset_bound)
  have 1: "register_asset w d url ident version p
         = (Inl (NotFoundError (''Asset at path '' @ repr w p @ '' not found in Dandiset '' @ ident)), d)"
    if "get_asset_by_path w ds p = Inl e" "is_NotFoundError e"
    using b that assms(2,3) by (simp add: register_asset_def the_dandiset_def)
  have 2: "register_asset_folder w d url ident version p
         = (Inl (NotFoundError (''No assets under path '' @ repr w p @ '' found in Dandiset '' @ ident)), d)"
    if "get_assets_with_path_prefix w ds p = []"
    using b that assms(2,3) by (simp add: register_asset_folder_def the_dandiset_def add_assets_def)
  have 3: "register_assets_url w d u pu' = (Inl (NotFoundError (''No assets found for '' @ u)), d)"
    if "ParsedDandiURL.api_url pu' = url" "dandiset_id pu' = ident" "get_assets w pu' (Some c) = []" for pu'
    using b that assms(1,3) by (simp add: register_assets_url_def add_assets_def)
  have 4: "register_url w d u = (Inl (NotFoundError (''No assets found for '' @ u)), d)"
    if "parse_dandi_url w u = Inr pu" "\<not> isinstance_DandisetURL pu"
      "ParsedDandiURL.api_url pu = url" "dandiset_id pu = ident"
      "get_assets w (if version_id pu = None then pu\<lparr>version_id := Some (DRAFT w)\<rparr> else pu) (Some c) = []"
    using that 3[of "if version_id pu = None then pu\<lparr>version_id := Some (DRAFT w)\<rparr> else pu"]
    by (simp add: register_url_def Let_def split: if_splits)
  show ?thesis
    using 1 2 3[of pu] 4 names_parts(1)[of "''Asset at path ''" "repr w p"]
      names_parts(3)[of "''Asset at path ''" "repr w p" "'' not found in Dandiset ''" ident]
      names_parts(1)[of "''No assets under path ''" "repr w p"]
      names_parts(3)[of "''No assets under path ''" "repr w p" "'' found in Dandiset ''" ident]
      names_parts(2)[of "''No assets found for ''" u]
    by blast
qed


text \<open>
  Bound to 000001: \<^verbatim>\<open>sub-09/\<close> as a path and as a prefix, and the URL of the files of
  sub-09, each find nothing.
\<close>

theorem not_found_messages_witness:
  "client ex_bound = Some \<lparr>DandiAPIClient.api_url = ex_api\<rparr> \<and> dandiset ex_bound = Some ex_dandiset
   \<and> \<not> skip_missing ex_bound
   \<and> is_same_url (DandiAPIClient.api_url \<lparr>DandiAPIClient.api_url = ex_api\<rparr>) ex_api
   \<and> RemoteDandiset.identifier ex_dandiset = ''000001''
   \<and> get_asset_by_path ex_env ex_dandiset ''sub-09/'' = Inl (NotFoundError ''No such asset'')
   \<and> is_NotFoundError (NotFoundError ''No such asset'')
   \<and> register_asset ex_env ex_bound ex_api ''000001'' ''draft'' ''sub-09/''
       = (Inl (NotFoundError (''Asset at path '' @ quoted ''sub-09/'' @ '' not found in Dandiset 000001'')),
          ex_bound)
   \<and> get_assets_with_path_prefix ex_env ex_dandiset ''sub-09/'' = []
   \<and> register_asset_folder ex_env ex_bound ex_api ''000001'' ''draft'' ''sub-09/''
       = (Inl (NotFoundError (''No assets under path '' @ quoted ''sub-09/'' @ '' found in Dandiset 000001'')),
          ex_bound)
   \<and> parse_dandi_url ex_env ex_url_empty = Inr (ex_parsed False ''000001'' (Some ''0.210831.2033''))
   \<and> get_assets ex_env (ex_parsed False ''000001'' (Some ''0.210831.2033''))
        (Some \<lparr>DandiAPIClient.api_url = ex_api\<rparr>) = []
   \<and> register_assets_url ex_env ex_bound ex_url_empty (ex_parsed False ''000001'' (Some ''0.210831.2033''))
       = (Inl (NotFoundError (''No assets found for '' @ ex_url_empty)), ex_bound)
   \<and> register_url ex_env ex_bound ex_url_empty
       = (Inl (NotFoundError (''No assets found for '' @ ex_url_empty)), ex_bound)"
  using not_found_messages[of ex_bound "\<lparr>DandiAPIClient.api_url = ex_api\<rparr>" ex_dandiset ex_api
      "''000001''" ex_env "''sub-09/''" "NotFoundError ''No such asset''" "''draft''"
      "ex_parsed False ''000001'' (Some ''0.210831.2033'')" ex_url_empty]
  by (simp add: ex_defs is_same_url_def)

text \<open>
  C4 as stated fails for a URL: \<open>register_assets_url\<close> is given the text of the URL and
  its parsed form; the message repeats the text and does not hold the Dandiset identifier
  of the parsed form.
\<close>

theorem not_found_url_message_counterexample:
  "register_assets_url ex_env ex_bound ''https://dandiarchive.org/files?location=sub-09''
     (ex_parsed False ''000001'' (Some ''0.210831.2033''))
     = (Inl (NotFoundError ''No assets found for https://dandiarchive.org/files?location=sub-09''),
        ex_bound)
   \<and> \<not> names ''No assets found for https://dandiarchive.org/files?location=sub-09'' ''000001''"
proof -
  have "\<not> sublist ''000001'' ''No assets found for https://dandiarchive.org/files?location=sub-09''"
    by code_simp
  then show ?thesis
    by (simp add: names_def ex_defs model_defs)
qed

text \<open>
  With \<open>skip_missing\<close>, a registration that finds nothing is a no-op on a fresh Deleter
  and on a Deleter bound to the Dandiset it names.
\<close>

lemma skip_missing_no_op_fresh:
  assumes "skip_missing d" and "client d = None"
    and "dandi_authenticate w \<lparr>DandiAPIClient.api_url = rstrip ''/'' url\<rparr> = None"
    and "get_dandiset w \<lparr>DandiAPIClient.api_url = rstrip ''/'' url\<rparr> ident (DRAFT w) = Inl e"
    and "is_NotFoundError e"
    and "d1 = d\<lparr>client := Some \<lparr>DandiAPIClient.api_url = rstrip ''/'' url\<rparr>\<rparr>"
  shows "register_dandiset w d url ident = (Inr (), d1)"
    and "register_asset w d url ident version p = (Inr (), d1)"
    and "register_asset_folder w d url ident version p = (Inr (), d1)"
    and "ParsedDandiURL.api_url pu = url \<Longrightarrow> dandiset_id pu = ident \<Longrightarrow>
         register_assets_url w d u pu = (Inr (), d1)"
    and "remote_assets d1 = remote_assets d" and "deleting_dandiset d1 = deleting_dandiset d"
  using set_dandiset_missing[OF assms(2,1,3,4,5)] assms(6)
  by (simp_all add: register_dandiset_def register_asset_def register_asset_folder_def
      register_assets_url_def)

lemma skip_missing_no_op_bound:
  assumes "skip_missing d" and "client d = Some c" and "dandiset d = Some ds"
    and "is_same_url (DandiAPIClient.api_url c) url" and "RemoteDandiset.identifier ds = ident"
  shows "get_asset_by_path w ds p = Inl e \<Longrightarrow> is_NotFoundError e \<Longrightarrow>
         register_asset w d url ident version p = (Inr (), d)"
    and "get_assets_with_path_prefix w ds p = [] \<Longrightarrow>
         register_asset_folder w d url ident version p = (Inr (), d)"
    and "ParsedDandiURL.api_url pu = url \<Longrightarrow> dandiset_id pu = ident \<Longrightarrow> get_assets w pu (Some c) = [] \<Longrightarrow>
         register_assets_url w d u pu = (Inr (), d)"
  using set_dandiset_bound[OF assms(2,3,4,5), of w] assms(1,2,3)
  by (simp_all add: register_asset_def register_asset_folder_def register_assets_url_def
      the_dandiset_def add_assets_def)

text \<open>
  C5 fails on the code. With \<open>skip_missing\<close>, the first registration of the missing
  Dandiset 999999 is a no-op; registering it again, or an asset of it, raises
  \<^verbatim>\<open>AttributeError\<close>, and \<open>delete\<close> on the two URLs ends with that error.
\<close>

theorem skip_missing_second_registration_raises:
  "register_url ex_env (Deleter_init True) ex_url_missing
     = (Inr (), (Deleter_init True)\<lparr>client := Some \<lparr>DandiAPIClient.api_url = ex_api\<rparr>\<rparr>)
   \<and> register_url ex_env ((Deleter_init True)\<lparr>client := Some \<lparr>DandiAPIClient.api_url = ex_api\<rparr>\<rparr>)
        ex_url_missing
     = (Inl (NoneType_has_no ''identifier''),
        (Deleter_init True)\<lparr>client := Some \<lparr>DandiAPIClient.api_url = ex_api\<rparr>\<rparr>)
   \<and> register_asset ex_env ((Deleter_init True)\<lparr>client := Some \<lparr>DandiAPIClient.api_url = ex_api\<rparr>\<rparr>)
        ex_api ''999999'' ''draft'' ''sub-01/a.nwb''
     = (Inl (NoneType_has_no ''identifier''),
        (Deleter_init True)\<lparr>client := Some \<lparr>DandiAPIClient.api_url = ex_api\<rparr>\<rparr>)
   \<and> delete ex_env [ex_url_missing, ex_url_missing] ''dandi'' False None False True
     = (Inl (NoneType_has_no ''identifier''), [])"
  by (simp add: ex_defs model_defs delete_def)

section \<open>Declining the confirmation\<close>

lemma set_dandiset_True_bound:
  "set_dandiset w d url ident = (Inr True, d1) \<Longrightarrow> dandiset d1 \<noteq> None"
  by (auto simp: set_dandiset_def Let_def split: option.splits sum.splits if_splits)

lemma set_dandiset_stays_bound:
  "set_dandiset w d url ident = (r, d1) \<Longrightarrow> dandiset d \<noteq> None \<Longrightarrow> dandiset d1 \<noteq> None"
  by (auto simp: set_dandiset_def Let_def split: option.splits sum.splits if_splits)

lemma set_dandiset_Deleter_bool:
  "set_dandiset w d url ident = (r, d1) \<Longrightarrow> Deleter_bool d1 = Deleter_bool d"
  using set_dandiset_keeps(1,2)[of w d url ident] by (simp add: Deleter_bool_def)

lemma set_dandiset_bound_if_nonempty:
  "set_dandiset w d url ident = (r, d1) \<Longrightarrow> bound_if_nonempty d \<Longrightarrow> bound_if_nonempty d1"
  using set_dandiset_stays_bound[of w d url ident r d1] set_dandiset_Deleter_bool[of w d url ident r d1]
  by (auto simp: bound_if_nonempty_def)

lemma bound_if_nonempty_bound: "dandiset d \<noteq> None \<Longrightarrow> bound_if_nonempty d"
  by (simp add: bound_if_nonempty_def)

text \<open>
  After the binder, a registration method either returns the Deleter the binder left,
  or the binder had bound and the method keeps the handle.
\<close>

lemma after_binder:
  assumes "bound_if_nonempty d" and "set_dandiset w d url ident = (r, d1)"
    and "d2 = d1 \<or> (r = Inr True \<and> dandiset d2 = dandiset d1)"
  shows "bound_if_nonempty d2"
proof -
  from assms(3) show ?thesis
  proof
    assume "d2 = d1"
    then show ?thesis using set_dandiset_bound_if_nonempty[OF assms(2,1)] by simp
  next
    assume h: "r = Inr True \<and> dandiset d2 = dandiset d1"
    then have "dandiset d1 \<noteq> None" using assms(2) set_dandiset_True_bound by blast
    with h show ?thesis by (simp add: bound_if_nonempty_bound)
  qed
qed

lemma register_dandiset_bound_if_nonempty:
  assumes "bound_if_nonempty d"
  shows "bound_if_nonempty (snd (register_dandiset w d url ident))"
proof -
  obtain r d1 where b: "set_dandiset w d url ident = (r, d1)" by (cases "set_dandiset w d url ident")
  have "snd (register_dandiset w d url ident) = d1
      \<or> (r = Inr True \<and> dandiset (snd (register_dandiset w d url ident)) = dandiset d1)"
    using b by (auto simp: register_dandiset_def split: sum.splits bool.splits)
  with assms b show ?thesis by (rule after_binder)
qed

lemma register_asset_bound_if_nonempty:
  assumes "bound_if_nonempty d"
  shows "bound_if_nonempty (snd (register_asset w d url ident version p))"
proof -
  obtain r d1 where b: "set_dandiset w d url ident = (r, d1)" by (cases "set_dandiset w d url ident")
  have "snd (register_asset w d url ident version p) = d1
      \<or> (r = Inr True \<and> dandiset (snd (register_asset w d url ident version p)) = dandiset d1)"
    using b by (auto simp: register_asset_def add_asset_keeps split: sum.splits bool.splits)
  with assms b show ?thesis by (rule after_binder)
qed

lemma register_asset_folder_bound_if_nonempty:
  assumes "bound_if_nonempty d"
  shows "bound_if_nonempty (snd (register_asset_folder w d url ident version p))"
proof -
  obtain r d1 where b: "set_dandiset w d url ident = (r, d1)" by (cases "set_dandiset w d url ident")
  have "snd (register_asset_folder w d url ident version p) = d1
      \<or> (r = Inr True \<and> dandiset (snd (register_asset_folder w d url ident version p)) = dandiset d1)"
    using b
    by (auto simp: register_asset_folder_def Let_def add_assets_keeps split: sum.splits bool.splits)
  with assms b show ?thesis by (rule after_binder)
qed

lemma register_assets_url_bound_if_nonempty:
  assumes "bound_if_nonempty d"
  shows "bound_if_nonempty (snd (register_assets_url w d u pu))"
proof -
  obtain r d1 where b: "set_dandiset w d (ParsedDandiURL.api_url pu) (dandiset_id pu) = (r, d1)"
    by (cases "set_dandiset w d (ParsedDandiURL.api_url pu) (dandiset_id pu)")
  have "snd (register_assets_url w d u pu) = d1
      \<or> (r = Inr True \<and> dandiset (snd (register_assets_url w d u pu)) = dandiset d1)"
    using b
    by (auto simp: register_assets_url_def Let_def add_assets_keeps
        split: sum.splits bool.splits option.splits)
  with assms b show ?thesis by (rule after_binder)
qed

lemma register_url_bound_if_nonempty:
  "bound_if_nonempty d \<Longrightarrow> bound_if_nonempty (snd (register_url w d u))"
  by (auto simp: register_url_def Let_def register_dandiset_bound_if_nonempty
      register_assets_url_bound_if_nonempty split: sum.splits)

lemma register_local_path_equivalent_bound_if_nonempty:
  assumes "bound_if_nonempty d"
  shows "bound_if_nonempty (snd (register_local_path_equivalent w d name fp))"
proof (cases "get_instance w name")
  case (Inl e)
  then show ?thesis using assms by (simp add: register_local_path_equivalent_def)
next
  case (Inr inst)
  show ?thesis
  proof (cases "find_local_asset w fp")
    case (Inl e)
    then show ?thesis using assms Inr by (simp add: register_local_path_equivalent_def)
  next
    case found: (Inr found)
    obtain ident ap where f: "found = (ident, ap)" by (cases found)
    obtain r d1 where b: "set_dandiset w d (api inst) ident = (r, d1)"
      by (cases "set_dandiset w d (api inst) ident")
    have d1: "bound_if_nonempty d1" using b assms by (rule set_dandiset_bound_if_nonempty)
    show ?thesis
      using Inr found f b d1 register_asset_bound_if_nonempty[OF d1]
        register_asset_folder_bound_if_nonempty[OF d1]
      by (auto simp: register_local_path_equivalent_def split: sum.splits bool.splits)
  qed
qed

lemma delete_register_bound_if_nonempty:
  "bound_if_nonempty d \<Longrightarrow> bound_if_nonempty (snd (delete_register w d ps inst))"
proof (induction ps arbitrary: d)
  case Nil
  then show ?case by simp
next
  case (Cons p ps)
  let ?r = "if is_url w p then register_url w d p else register_local_path_equivalent w d inst p"
  have "bound_if_nonempty (snd ?r)"
    using Cons.prems
    by (simp add: register_url_bound_if_nonempty register_local_path_equivalent_bound_if_nonempty)
  then show ?case
    using Cons.IH[of "snd ?r"] by (cases ?r) (auto split: sum.splits)
qed

text \<open>
  C8. After registrations that leave something to delete, with \<open>force\<close> off and the
  prompt answered no, \<open>delete\<close> returns normally and nothing has happened: no
  \<^verbatim>\<open>dandiset.delete\<close>, no \<^verbatim>\<open>asset.delete\<close>, no output. The prompt itself cannot raise,
  because a Deleter that holds something has a Dandiset handle.
\<close>

theorem declined_confirmation_deletes_nothing:
  assumes "delete_register w (Deleter_init sm) paths inst = (Inr (), d)"
    and "Deleter_bool d"
    and "\<forall>ds. dandiset d = Some ds \<longrightarrow> \<not> click_confirm w (confirm_msg d ds)"
  shows "confirm w d = Inr False
    \<and> delete w paths inst devel_debug jobs False sm = (Inr (), [])
    \<and> delete_calls (snd (delete w paths inst devel_debug jobs False sm)) = []"
proof -
  have "bound_if_nonempty (Deleter_init sm)"
    by (simp add: bound_if_nonempty_def Deleter_bool_def Deleter_init_def)
  then have "bound_if_nonempty d"
    using delete_register_bound_if_nonempty[of "Deleter_init sm" w paths inst] assms(1) by simp
  with assms(2) obtain ds where ds: "dandiset d = Some ds"
    by (auto simp: bound_if_nonempty_def)
  with assms(3) have c: "confirm w d = Inr False"
    by (simp add: confirm_def the_dandiset_def)
  then have "delete w paths inst devel_debug jobs False sm = (Inr (), [])"
    using assms(1,2) by (simp add: delete_def)
  with c show ?thesis by (simp add: delete_calls_def)
qed

text \<open>Two assets are registered by URL and the user answers no.\<close>

theorem declined_confirmation_deletes_nothing_witness:
  "delete_register ex_env (Deleter_init False) [ex_url_folder] ''dandi''
     = (Inr (), ex_bound\<lparr>remote_assets := [ex_asset_a, ex_asset_b]\<rparr>)
   \<and> Deleter_bool (ex_bound\<lparr>remote_assets := [ex_asset_a, ex_asset_b]\<rparr>)
   \<and> dandiset (ex_bound\<lparr>remote_assets := [ex_asset_a, ex_asset_b]\<rparr>) = Some ex_dandiset
   \<and> \<not> click_confirm ex_env
         (confirm_msg (ex_bound\<lparr>remote_assets := [ex_asset_a, ex_asset_b]\<rparr>) ex_dandiset)
   \<and> confirm_msg (ex_bound\<lparr>remote_assets := [ex_asset_a, ex_asset_b]\<rparr>) ex_dandiset
       = ''Delete 2 assets on server from Dandiset 000001?''
   \<and> delete ex_env [ex_url_folder] ''dandi'' False None False False = (Inr (), [])"
proof -
  have r: "delete_register ex_env (Deleter_init False) [ex_url_folder] ''dandi''
     = (Inr (), ex_bound\<lparr>remote_assets := [ex_asset_a, ex_asset_b]\<rparr>)"
    by (simp add: ex_defs model_defs)
  have b: "Deleter_bool (ex_bound\<lparr>remote_assets := [ex_asset_a, ex_asset_b]\<rparr>)"
    by (simp add: Deleter_bool_def)
  have n: "\<forall>ds. dandiset (ex_bound\<lparr>remote_assets := [ex_asset_a, ex_asset_b]\<rparr>) = Some ds \<longrightarrow>
         \<not> click_confirm ex_env (confirm_msg (ex_bound\<lparr>remote_assets := [ex_asset_a, ex_asset_b]\<rparr>) ds)"
    by (simp add: ex_env_def)
  have m: "confirm_msg (ex_bound\<lparr>remote_assets := [ex_asset_a, ex_asset_b]\<rparr>) ex_dandiset
       = ''Delete 2 assets on server from Dandiset 000001?''"
    by (simp add: confirm_msg_def ex_bound_def ex_dandiset_def digit_def)
  have h: "dandiset (ex_bound\<lparr>remote_assets := [ex_asset_a, ex_asset_b]\<rparr>) = Some ex_dandiset"
    by (simp add: ex_bound_def)
  show ?thesis
    using declined_confirmation_deletes_nothing[OF r b n, of False None] r b n m h by blast
qed

section \<open>Execution isolates a failing asset\<close>

text \<open>What one asset contributes to a run, by the outcome of its \<^verbatim>\<open>delete\<close>.\<close>

lemma process_asset_succeeds:
  "asset_delete w asset = None \<Longrightarrow>
   process_asset w asset
     = ([Yield [(''status'', ''Deleting'')], Call_asset_delete asset, Yield [(''status'', ''Deleted'')]],
        None)"
  by (simp add: process_asset_def)

lemma process_asset_caught:
  "asset_delete w asset = Some e \<Longrightarrow> is_Exception e \<Longrightarrow>
   process_asset w asset
     = ([Yield [(''status'', ''Deleting'')], Call_asset_delete asset,
         Yield [(''status'', ''Error''), (''message'', type_name e @ '': '' @ str_error e)]],
        None)"
  by (simp add: process_asset_def)














lemma ex_sorted:
  "sort_key path [ex_asset_c, ex_asset_a, ex_asset_b] = [ex_asset_a, ex_asset_b, ex_asset_c]"
  by (simp add: ex_defs less_eq_char_def less_char_def)



lemma ex_table_run:
  "delete_table ex_env (ex_bound\<lparr>remote_assets := [ex_asset_c, ex_asset_a, ex_asset_b]\<rparr>) None
     = (Inr (),
        [Table_update ''sub-01/a.nwb'' [(''status'', ''Deleting'')],
         Call_asset_delete ex_asset_a,
         Table_update ''sub-01/a.nwb'' [(''status'', ''Deleted'')],
         Table_update ''sub-01/b.nwb'' [(''status'', ''Deleting'')],
         Call_asset_delete ex_asset_b,
         Table_update ''sub-01/b.nwb''
           [(''status'', ''Error''), (''message'', ''HTTPError: 500 Server Error'')],
         Table_update ''sub-02/c.nwb'' [(''status'', ''Deleting'')],
         Call_asset_delete ex_asset_c,
         Table_update ''sub-02/c.nwb'' [(''status'', ''Deleted'')]])"
  unfolding delete_table_def process_assets_pyout_def
  by (simp add: ex_sorted process_asset_def) (simp add: ex_defs)



end
